theory Spec2Isabelle
  imports Main "HOL-Library.Word"
begin

section \<open>Power management of a node (pkg/node/power.go)\<close>

text \<open>
  A shallow embedding of the power server of \<^verbatim>\<open>pkg/node/power.go\<close>. The ledger
  client, the init system, the event bus, the HTTP client and the kernel route table
  are external collaborators: their answers are the fields of an environment record,
  and every call that changes something outside the process is appended to a trace.
\<close>

subsection \<open>Machine integers\<close>

type_synonym u32 = "32 word"
type_synonym u64 = "64 word"

subsection \<open>Errors\<close>

text \<open>
  Go errors as values. \<open>Errorf\<close> keeps the format string and its arguments,
  \<open>Wrap\<close> and \<open>Wrapf\<close> are those of \<^verbatim>\<open>github.com/pkg/errors\<close>, \<open>Failure\<close> is an
  error reported by an external collaborator, and \<open>ErrNotSupported\<close> is the sentinel
  \<^verbatim>\<open>zinit.ErrNotSupported\<close>. A Go \<^verbatim>\<open>error\<close> that may be nil is an \<open>error option\<close>.
\<close>

datatype error =
    Errorf string "arg list"
  | Wrap error string
  | Wrapf error string "arg list"
  | Failure string
  | ErrNotSupported
and arg = ArgS string | ArgU u32 | ArgE error

definition errConnectionError :: error where
  "errConnectionError = Errorf ''connection error'' []"

text \<open>\<^verbatim>\<open>errors.Wrap(err, msg)\<close> is nil when \<^verbatim>\<open>err\<close> is nil.\<close>

fun errors_Wrap :: "error option \<Rightarrow> string \<Rightarrow> error option" where
  "errors_Wrap None msg = None"
| "errors_Wrap (Some e) msg = Some (Wrap e msg)"

text \<open>\<^verbatim>\<open>errors.Is(err, target)\<close> follows the chain of wrapped errors.\<close>

fun unwraps_to :: "error \<Rightarrow> error \<Rightarrow> bool" where
  "unwraps_to (Wrap e msg) t = (Wrap e msg = t \<or> unwraps_to e t)"
| "unwraps_to (Wrapf e msg args) t = (Wrapf e msg args = t \<or> unwraps_to e t)"
| "unwraps_to e t = (e = t)"

fun errors_Is :: "error option \<Rightarrow> error \<Rightarrow> bool" where
  "errors_Is None t = False"
| "errors_Is (Some e) t = unwraps_to e t"

subsection \<open>Ledger records\<close>

text \<open>
  The fields of \<^verbatim>\<open>substrate.Node\<close> that the power server reads. \<open>IsUp\<close> and
  \<open>IsDown\<close> are independent booleans in the Go structs, and stay so here.
\<close>

record interface =
  Name :: string
  Mac :: string
  IPs :: "string list"

record power_target =
  IsUp :: bool
  IsDown :: bool

record power_state = power_target +
  Leader :: u32

record node_power =
  State :: power_state
  Target :: power_target
  LastUpTime :: u64

record node =
  ID :: u32
  FarmID :: u32
  Interfaces :: "interface list"
  Power :: node_power

text \<open>\<^verbatim>\<open>pkg.PowerChangeEvent\<close>.\<close>

record PowerChangeEvent =
  evFarmID :: u32
  evNodeID :: u32
  evTarget :: power_target

subsection \<open>Requests and responses\<close>

definition downTarget :: string where
  "downTarget = ''down''"

definition wolInterface :: string where
  "wolInterface = ''zos''"

definition PowerServerPort :: nat where
  "PowerServerPort = 8039"

text \<open>The wire value \<^verbatim>\<open>powerRequest\<close>.\<close>

record power_request =
  reqLeader :: u32
  reqNode :: u32
  reqTarget :: string

text \<open>
  An outgoing HTTP request as \<^verbatim>\<open>powerRequest\<close> builds it, step by step: the method,
  the URL, the encoded body, and after \<^verbatim>\<open>mw.SignedRequest\<close> the signature headers.
\<close>

record http_request =
  Method :: string
  URL :: string
  Body :: string
  Signature :: "string option"

text \<open>
  An incoming request at the \<^verbatim>\<open>/power\<close> handler: its body, and the twin id that the
  authentication middleware stored in the request context (\<^verbatim>\<open>mw.TwinID\<close>).
\<close>

record incoming =
  inBody :: string
  TwinID :: u32

text \<open>The constructors of \<^verbatim>\<open>mw.Response\<close> that the handler uses.\<close>

datatype response =
    Forbidden error
  | BadRequest error
  | UnAuthorized error
  | Error error
  | Accepted

subsection \<open>The power server and its environment\<close>

text \<open>
  The fields of \<^verbatim>\<open>PowerServer\<close> that decide behaviour. \<open>idx\<close> is the link index
  held by \<^verbatim>\<open>Direct\<close>; \<open>sk\<close> stands for the signing key and the identity.
\<close>

record PowerServer =
  farm :: u32
  node :: u32
  sk :: string
  idx :: int

record route =
  Gw :: "string option"
  LinkIndex :: int

text \<open>
  What the outside world answers. \<open>Substrate k\<close> is the outcome of the \<open>k\<close>-th call
  of \<^verbatim>\<open>p.sub.Substrate()\<close> (\<open>None\<close>: a connection was obtained); the other fields
  are the results of the calls of the same name. \<open>Do\<close> answers a transport error or
  the status code of the peer's response; \<open>now\<close> is \<^verbatim>\<open>uint64(time.Now().Unix())\<close>.
\<close>

record env =
  Substrate :: "nat \<Rightarrow> error option"
  GetNode :: "u32 \<Rightarrow> error + node"
  SetNodePowerState :: "power_state \<Rightarrow> error option"
  SendNow :: "error option"
  Shutdown :: "error option"
  Reboot :: "error option"
  ether_wake :: "string \<Rightarrow> error option"
  now :: u64
  IsLeader :: bool
  ParseIP :: "string \<Rightarrow> string option"
  RouteGet :: "string \<Rightarrow> error + route list"
  Encode :: "power_request \<Rightarrow> error + string"
  buildUrl :: "string \<Rightarrow> nat \<Rightarrow> string \<Rightarrow> error + string"
  NewRequest :: "string \<Rightarrow> string \<Rightarrow> string \<Rightarrow> error + http_request"
  SignedRequest :: "u32 \<Rightarrow> string \<Rightarrow> http_request \<Rightarrow> error + http_request"
  Do :: "http_request \<Rightarrow> error + nat"
  Decode :: "string \<Rightarrow> error + power_request"

text \<open>Calls that act on the outside world, in the order they are made.\<close>

datatype effect =
    CallGetNode u32
  | TxSetNodePowerState power_state
  | CallSendNow
  | CallShutdown
  | CallReboot
  | EtherWake string
  | HttpDo http_request
  | BodyClose
  | Subscribe
  | After10s

text \<open>
  The state threaded through every operation: how many ledger connections have been
  asked for, and the trace of effects.
\<close>

record st =
  conns :: nat
  trace :: "effect list"

definition emit :: "effect \<Rightarrow> st \<Rightarrow> st" where
  "emit e s = s\<lparr>trace := trace s @ [e]\<rparr>"

definition connect :: "env \<Rightarrow> st \<Rightarrow> error option \<times> st" where
  "connect E s = (Substrate E (conns s), s\<lparr>conns := Suc (conns s)\<rparr>)"

subsection \<open>Reading a node record\<close>

definition getNode :: "env \<Rightarrow> u32 \<Rightarrow> st \<Rightarrow> (error + node) \<times> st" where
  "getNode E nodeID s =
     (case connect E s of
        (Some err, s1) \<Rightarrow> (Inl (Wrap err ''failed to get connection to substrate''), s1)
      | (None, s1) \<Rightarrow>
          (case GetNode E nodeID of
             Inl err \<Rightarrow>
               (Inl (Wrap err ''failed to get node information''), emit (CallGetNode nodeID) s1)
           | Inr n \<Rightarrow> (Inr n, emit (CallGetNode nodeID) s1)))"

subsection \<open>The nudge policy\<close>

text \<open>
  \<^verbatim>\<open>needNudge(id uint32, ts uint64)\<close>. The first argument is the value of
  \<^verbatim>\<open>uint64(time.Now().Unix())\<close>, which the Go code reads from the clock. All
  arithmetic is on \<^verbatim>\<open>uint64\<close> and wraps around.
\<close>

definition needNudge :: "u64 \<Rightarrow> u32 \<Rightarrow> u64 \<Rightarrow> bool" where
  "needNudge now_ts nid ts =
     (let next = ts + (24 + (ucast nid :: u64) mod 24) * 1200
      in now_ts \<ge> next)"

subsection \<open>The direct link probe\<close>

text \<open>The loop over the routes, with its early return.\<close>

fun direct_route :: "int \<Rightarrow> route list \<Rightarrow> bool" where
  "direct_route d [] = False"
| "direct_route d (r # rs) =
     (if Gw r = None \<and> LinkIndex r = d then True else direct_route d rs)"

text \<open>\<^verbatim>\<open>(d *Direct) IsDirect(ip)\<close>; \<open>Inl err\<close> is the Go result \<^verbatim>\<open>(false, err)\<close>.\<close>

definition IsDirect :: "int \<Rightarrow> env \<Rightarrow> string \<Rightarrow> error + bool" where
  "IsDirect d E ip =
     (case ParseIP E ip of
        None \<Rightarrow> Inl (Errorf ''invalid ip address'' [])
      | Some ipT \<Rightarrow>
          (case RouteGet E ipT of
             Inl err \<Rightarrow> Inr False
           | Inr routes \<Rightarrow> Inr (direct_route d routes)))"

subsection \<open>Acting on a neighbour\<close>

text \<open>The first interface named \<^verbatim>\<open>zos\<close>, as both loops with \<^verbatim>\<open>break\<close> find it.\<close>

fun zos_interface :: "interface list \<Rightarrow> interface option" where
  "zos_interface [] = None"
| "zos_interface (itf # infs) =
     (if Name itf = ''zos'' then Some itf else zos_interface infs)"

definition powerUp :: "env \<Rightarrow> node \<Rightarrow> st \<Rightarrow> error option \<times> st" where
  "powerUp E n s =
     (let mac = (case zos_interface (Interfaces n) of None \<Rightarrow> [] | Some itf \<Rightarrow> Mac itf)
      in if mac = []
         then (Some (Errorf (''can't find mac address of node '%d'' @ [CHR 0x27]) [ArgU (ID n)]), s)
         else (ether_wake E mac, emit (EtherWake mac) s))"

definition powerRequest ::
  "PowerServer \<Rightarrow> env \<Rightarrow> string \<Rightarrow> power_request \<Rightarrow> st \<Rightarrow> error option \<times> st" where
  "powerRequest p E ip req s =
     (case Encode E req of
        Inl err \<Rightarrow> (Some err, s)
      | Inr buf \<Rightarrow>
     (case buildUrl E ip PowerServerPort ''power'' of
        Inl err \<Rightarrow> (Some err, s)
      | Inr url \<Rightarrow>
     (case NewRequest E ''POST'' url buf of
        Inl err \<Rightarrow> (Some err, s)
      | Inr r \<Rightarrow>
     (case SignedRequest E (node p) (sk p) r of
        Inl err \<Rightarrow> (Some err, s)
      | Inr sreq \<Rightarrow>
     (case Do E sreq of
        Inl err \<Rightarrow> (None, emit (HttpDo sreq) s)
      | Inr resp \<Rightarrow> (None, emit BodyClose (emit (HttpDo sreq) s)))))))"

fun powerDown_loop ::
  "PowerServer \<Rightarrow> env \<Rightarrow> power_request \<Rightarrow> string list \<Rightarrow> st \<Rightarrow> st" where
  "powerDown_loop p E req [] s = s"
| "powerDown_loop p E req (ip # ips) s =
     (case IsDirect (idx p) E ip of
        Inl err \<Rightarrow> powerDown_loop p E req ips s
      | Inr local \<Rightarrow>
          if \<not> local then powerDown_loop p E req ips s
          else powerDown_loop p E req ips (snd (powerRequest p E ip req s)))"

definition powerDown :: "PowerServer \<Rightarrow> env \<Rightarrow> node \<Rightarrow> st \<Rightarrow> error option \<times> st" where
  "powerDown p E n s =
     (let ips = (case zos_interface (Interfaces n) of None \<Rightarrow> [] | Some itf \<Rightarrow> IPs itf);
          req = \<lparr>reqLeader = node p, reqNode = ID n, reqTarget = downTarget\<rparr>
      in (None, powerDown_loop p E req ips s))"

subsection \<open>Local shutdown\<close>

definition shutdown :: "env \<Rightarrow> st \<Rightarrow> error option \<times> st" where
  "shutdown E s =
     (let s1 = emit CallSendNow s;
          s2 = emit CallShutdown s1;
          err = Shutdown E
      in if errors_Is err ErrNotSupported
         then (Reboot E, emit CallReboot s2)
         else (err, s2))"

subsection \<open>Reconciliation\<close>

definition syncNode :: "PowerServer \<Rightarrow> env \<Rightarrow> u32 \<Rightarrow> st \<Rightarrow> error option \<times> st" where
  "syncNode p E nid s =
     (let s1 = emit (CallGetNode nid) s
      in case GetNode E nid of
           Inl err \<Rightarrow> (Some (Wrapf err ''failed to get node '%d' from chain'' [ArgU nid]), s1)
         | Inr n \<Rightarrow>
             if IsUp (Target (Power n)) \<or> IsDown (State (Power n))
             then (if needNudge (now E) nid (LastUpTime (Power n))
                   then powerUp E n s1
                   else (None, s1))
             else powerDown p E n s1)"

definition state_up :: power_state where
  "state_up = \<lparr>IsUp = True, IsDown = False, Leader = 0\<rparr>"

definition syncSelf :: "PowerServer \<Rightarrow> env \<Rightarrow> st \<Rightarrow> error option \<times> st" where
  "syncSelf p E s =
     (case getNode E (node p) s of
        (Inl err, s1) \<Rightarrow> (Some err, s1)
      | (Inr n, s1) \<Rightarrow>
          (let power = Power n
           in if IsUp (Target power)
              then (case connect E s1 of
                      (Some err, s2) \<Rightarrow> (Some err, s2)
                    | (None, s2) \<Rightarrow>
                        (errors_Wrap (SetNodePowerState E state_up) ''failed to set state to up'',
                         emit (TxSetNodePowerState state_up) s2))
              else if IsDown (State power) then shutdown E s1
              else (None, s1)))"

subsection \<open>Power events\<close>

definition event :: "PowerServer \<Rightarrow> env \<Rightarrow> PowerChangeEvent \<Rightarrow> st \<Rightarrow> error option \<times> st" where
  "event p E ev s =
     (if evFarmID ev \<noteq> farm p then (None, s)
      else case getNode E (evNodeID ev) s of
             (Inl err, s1) \<Rightarrow> (Some err, s1)
           | (Inr n, s1) \<Rightarrow>
               if evNodeID ev = node p then (None, s1)
               else if IsDown (evTarget ev) then powerDown p E n s1
               else if IsUp (evTarget ev) then powerUp E n s1
               else (None, s1))"

text \<open>
  What one call of \<^verbatim>\<open>events.PowerChangeEvent(ctx)\<close> brings: the subscription fails, or
  a stream is established and delivers some events before its channel is closed.
\<close>

datatype subscription = SubscribeFailed error | Stream "PowerChangeEvent list"

text \<open>The loop over the stream: the error of an event is logged and dropped.\<close>

fun recv_loop :: "PowerServer \<Rightarrow> env \<Rightarrow> PowerChangeEvent list \<Rightarrow> st \<Rightarrow> st" where
  "recv_loop p E [] s = s"
| "recv_loop p E (ev # evs) s = recv_loop p E evs (snd (event p E ev s))"

definition recv :: "PowerServer \<Rightarrow> env \<Rightarrow> subscription \<Rightarrow> st \<Rightarrow> error option \<times> st" where
  "recv p E sub s =
     (case sub of
        SubscribeFailed err \<Rightarrow>
          (Some (Wrapf errConnectionError ''failed to connect to zbus events: %s'' [ArgE err]),
           emit Subscribe s)
      | Stream evs \<Rightarrow> (None, recv_loop p E evs (emit Subscribe s)))"

text \<open>
  One turn of the loop of \<^verbatim>\<open>events\<close>: what the subscription brings, and whether the
  context is cancelled before the ten second timer of the \<^verbatim>\<open>select\<close> fires. The list
  of turns is the fuel of the loop: when it is used up the loop is still running.
\<close>

record turn =
  sub :: subscription
  cancelled :: bool

datatype loop_status = Exited | Running

fun events_loop :: "PowerServer \<Rightarrow> env \<Rightarrow> turn list \<Rightarrow> st \<Rightarrow> loop_status \<times> st" where
  "events_loop p E [] s = (Running, s)"
| "events_loop p E (t # ts) s =
     (case recv p E (sub t) s of
        (None, s1) \<Rightarrow> (Exited, s1)
      | (Some err, s1) \<Rightarrow>
          if cancelled t then (Exited, s1)
          else events_loop p E ts (emit After10s s1))"

text \<open>
  \<^verbatim>\<open>events\<close>: after the first uptime was sent (\<^verbatim>\<open>p.ut.Mark.Done\<close>, a wait with no
  effect of its own), synchronise this node, log the error, and enter the loop.
\<close>

definition events :: "PowerServer \<Rightarrow> env \<Rightarrow> turn list \<Rightarrow> st \<Rightarrow> loop_status \<times> st" where
  "events p E ts s = events_loop p E ts (snd (syncSelf p E s))"

subsection \<open>The handler of POST /power\<close>

definition power_handler :: "PowerServer \<Rightarrow> env \<Rightarrow> incoming \<Rightarrow> st \<Rightarrow> response \<times> st" where
  "power_handler p E r s =
     (if IsLeader E then (Forbidden (Errorf ''is a leader node'' []), s)
      else case Decode E (inBody r) of
        Inl err \<Rightarrow> (BadRequest err, s)
      | Inr request \<Rightarrow>
          (let leader = TwinID r
           in if leader \<noteq> reqLeader request
              then (UnAuthorized (Errorf ''invalid leader id in request'' []), s)
              else if reqTarget request \<noteq> downTarget
              then (BadRequest (Errorf (''unknown power target '%s'' @ [CHR 0x27])
                                  [ArgS (reqTarget request)]), s)
              else case connect E s of
                (Some err, s1) \<Rightarrow> (Error err, s1)
              | (None, s1) \<Rightarrow>
                  (let s2 = emit (CallGetNode leader) s1
                   in case GetNode E leader of
                        Inl err \<Rightarrow> (Error (Wrap err ''failed to get leader node''), s2)
                      | Inr leaderNode \<Rightarrow>
                          if FarmID leaderNode \<noteq> farm p
                          then (UnAuthorized
                                  (Errorf ''requesting node is not in the same farm'' []), s2)
                          else
                            (let tx = \<lparr>IsUp = False, IsDown = True,
                                       Leader = reqLeader request\<rparr>;
                                 s3 = emit (TxSetNodePowerState tx) s2
                             in case SetNodePowerState E tx of
                                  Some err \<Rightarrow>
                                    (Error (Wrap err ''failed to set power state''), s3)
                                | None \<Rightarrow>
                                    (case shutdown E s3 of
                                       (Some err, s4) \<Rightarrow> (Error err, s4)
                                     | (None, s4) \<Rightarrow> (Accepted, s4))))))"

subsection \<open>Reading a trace\<close>

fun is_wake :: "effect \<Rightarrow> bool" where
  "is_wake (EtherWake mac) = True"
| "is_wake e = False"

section \<open>Concrete farms\<close>

text \<open>
  A small farm to run the model on: node 1 of farm 7 runs the power server, its
  control interface has index 3, and every neighbour has one \<^verbatim>\<open>zos\<close> interface.
\<close>

definition demo_server :: PowerServer where
  "demo_server = \<lparr>farm = 7, node = 1, sk = ''key'', idx = 3\<rparr>"

definition start :: st where
  "start = \<lparr>conns = 0, trace = []\<rparr>"

definition zos_node :: "u32 \<Rightarrow> u32 \<Rightarrow> node_power \<Rightarrow> node" where
  "zos_node i f pw =
     \<lparr>ID = i, FarmID = f,
      Interfaces = [\<lparr>Name = ''zos'', Mac = ''aa:bb:cc:dd:ee:ff'', IPs = [''10.0.0.5'']\<rparr>],
      Power = pw\<rparr>"

text \<open>Target up and state up; target down while the state is still up.\<close>

definition up_power :: node_power where
  "up_power = \<lparr>State = \<lparr>IsUp = True, IsDown = False, Leader = 0\<rparr>,
               Target = \<lparr>IsUp = True, IsDown = False\<rparr>, LastUpTime = 1000\<rparr>"

definition lingering_power :: node_power where
  "lingering_power = \<lparr>State = \<lparr>IsUp = True, IsDown = False, Leader = 0\<rparr>,
                      Target = \<lparr>IsUp = False, IsDown = True\<rparr>, LastUpTime = 1000\<rparr>"

definition no_ledger :: "u32 \<Rightarrow> error + node" where
  "no_ledger i = Inl (Failure ''node not found'')"

definition self_ledger :: "u32 \<Rightarrow> error + node" where
  "self_ledger i =
     (if i = 1 then Inr (zos_node 1 7 up_power) else Inl (Failure ''node not found''))"

text \<open>
  An environment in which every collaborator answers: the ledger is a parameter,
  \<^verbatim>\<open>10.0.0.5\<close> is on the local link, \<^verbatim>\<open>8.8.8.8\<close> has no route, the peer answers 401,
  and a body decodes to a request from leader 1 whose target is the body itself.
\<close>

definition calm_env :: "(u32 \<Rightarrow> error + node) \<Rightarrow> env" where
  "calm_env ledger =
     \<lparr>Substrate = (\<lambda>k. None),
      GetNode = ledger,
      SetNodePowerState = (\<lambda>ps. None),
      SendNow = None,
      Shutdown = None,
      Reboot = None,
      ether_wake = (\<lambda>mac. None),
      now = 0,
      IsLeader = False,
      ParseIP = (\<lambda>a. if a = ''10.0.0.5'' \<or> a = ''8.8.8.8'' then Some a else None),
      RouteGet = (\<lambda>a. if a = ''10.0.0.5''
                        then Inr [\<lparr>Gw = Some ''10.0.0.1'', LinkIndex = 2\<rparr>,
                                  \<lparr>Gw = None, LinkIndex = 3\<rparr>]
                        else Inl (Failure ''network is unreachable'')),
      Encode = (\<lambda>r. Inr (reqTarget r)),
      buildUrl = (\<lambda>ip port path. Inr (''http://'' @ ip @ ''/'' @ path)),
      NewRequest = (\<lambda>m u b. Inr \<lparr>Method = m, URL = u, Body = b, Signature = None\<rparr>),
      SignedRequest = (\<lambda>n k r. Inr (r\<lparr>Signature := Some k\<rparr>)),
      Do = (\<lambda>r. Inr 401),
      Decode = (\<lambda>b. Inr \<lparr>reqLeader = 1, reqNode = 2, reqTarget = b\<rparr>)\<rparr>"

definition nudge_env :: env where
  "nudge_env = (calm_env (\<lambda>i. Inr (zos_node i 7 up_power)))\<lparr>now := 100000\<rparr>"

definition lingering_env :: env where
  "lingering_env = (calm_env (\<lambda>i. Inr (zos_node i 7 lingering_power)))\<lparr>now := 100000\<rparr>"

definition unreachable_peer_env :: env where
  "unreachable_peer_env =
     (calm_env no_ledger)\<lparr>Do := (\<lambda>r. Inl (Failure ''connection refused''))\<rparr>"

definition broken_encoder_env :: env where
  "broken_encoder_env = (calm_env no_ledger)\<lparr>Encode := (\<lambda>r. Inl (Failure ''json''))\<rparr>"

definition offline_env :: env where
  "offline_env = (calm_env self_ledger)\<lparr>Substrate := (\<lambda>k. Some (Failure ''no connection''))\<rparr>"

definition down_request :: power_request where
  "down_request = \<lparr>reqLeader = 1, reqNode = 9, reqTarget = ''down''\<rparr>"

definition signed_down :: http_request where
  "signed_down = \<lparr>Method = ''POST'', URL = ''http://10.0.0.5/power'', Body = ''down'',
                   Signature = Some ''key''\<rparr>"

definition self_down_event :: PowerChangeEvent where
  "self_down_event = \<lparr>evFarmID = 7, evNodeID = 1, evTarget = \<lparr>IsUp = False, IsDown = True\<rparr>\<rparr>"

definition neighbour_down_event :: PowerChangeEvent where
  "neighbour_down_event = \<lparr>evFarmID = 7, evNodeID = 9, evTarget = \<lparr>IsUp = False, IsDown = True\<rparr>\<rparr>"

definition foreign_event :: PowerChangeEvent where
  "foreign_event = \<lparr>evFarmID = 8, evNodeID = 1, evTarget = \<lparr>IsUp = False, IsDown = True\<rparr>\<rparr>"

definition foreign_ledger :: "u32 \<Rightarrow> error + node" where
  "foreign_ledger i = Inr (zos_node i 9 up_power)"

definition leader_env :: env where
  "leader_env = (calm_env self_ledger)\<lparr>IsLeader := True\<rparr>"

definition foreign_leader_env :: env where
  "foreign_leader_env = (calm_env foreign_ledger)\<lparr>IsLeader := True\<rparr>"

definition stuck_init_env :: env where
  "stuck_init_env = (calm_env self_ledger)\<lparr>Shutdown := Some (Failure ''zinit unreachable'')\<rparr>"

definition readonly_ledger_env :: env where
  "readonly_ledger_env =
     (calm_env self_ledger)\<lparr>SetNodePowerState := (\<lambda>ps. Some (Failure ''extrinsic failed''))\<rparr>"

definition down_body :: incoming where
  "down_body = \<lparr>inBody = ''down'', TwinID = 1\<rparr>"

definition up_body :: incoming where
  "up_body = \<lparr>inBody = ''up'', TwinID = 1\<rparr>"

text \<open>The value \<^verbatim>\<open>substrate.PowerState{IsDown: true, Leader: l}\<close>.\<close>

definition state_down :: "u32 \<Rightarrow> power_state" where
  "state_down l = \<lparr>IsUp = False, IsDown = True, Leader = l\<rparr>"

text \<open>Turns of the event loop: a stream that ends, and a subscription that fails.\<close>

definition ended_stream :: turn where
  "ended_stream = \<lparr>sub = Stream [], cancelled = False\<rparr>"

definition refused :: turn where
  "refused = \<lparr>sub = SubscribeFailed (Failure ''redis down''), cancelled = False\<rparr>"

section \<open>Properties\<close>

subsection \<open>The threaded state\<close>

lemma st_rebuild: "(s :: st)\<lparr>conns := c, trace := t\<rparr> = \<lparr>conns = c, trace = t\<rparr>"
  by (cases s) simp

subsection \<open>The nudge deadline\<close>

lemma unat_ucast_u32_u64: "unat (ucast (nid :: u32) :: u64) = unat nid"
  by transfer simp

lemma unat_jitter:
  "unat ((24 + (ucast (nid :: u32) :: u64) mod 24) * 1200) = (24 + unat nid mod 24) * 1200"
proof -
  define r :: u64 where "r = ucast nid mod 24"
  have small: "unat nid mod 24 < 24" by simp
  have m: "unat r = unat nid mod 24"
    unfolding r_def by (simp add: unat_mod unat_ucast_u32_u64)
  have a: "unat (24 + r) = 24 + unat nid mod 24"
    using small by (simp add: unat_word_ariths(1) m)
  have "unat ((24 + r) * 1200) = (unat (24 + r) * 1200) mod 2 ^ 64"
    by (simp only: unat_word_ariths(2)) simp
  also have "\<dots> = (24 + unat nid mod 24) * 1200"
    using small unfolding a by simp
  finally show ?thesis unfolding r_def .
qed

text \<open>
  C5, as stated, fails: the deadline is computed on \<^verbatim>\<open>uint64\<close> and wraps around.
  With a last uptime of \<open>2^64 - 1\<close> and node id 0, the time 28799 lies far before
  \<open>LastUpTime + (24 + id mod 24) * 1200\<close>, and \<open>needNudge\<close> answers true.
\<close>

theorem needNudge_wraps_counterexample:
  "needNudge 28799 0 18446744073709551615 \<and>
   \<not> (unat (18446744073709551615 :: u64) + (24 + unat (0 :: u32) mod 24) * 1200
        \<le> unat (28799 :: u64))"
  by (simp add: needNudge_def)

lemma needNudge_unat:
  "needNudge now_ts nid ts \<longleftrightarrow>
     (unat ts + (24 + unat nid mod 24) * 1200) mod 2 ^ 64 \<le> unat now_ts"
proof -
  define j :: u64 where "j = (24 + ucast nid mod 24) * 1200"
  have j: "unat j = (24 + unat nid mod 24) * 1200"
    unfolding j_def by (rule unat_jitter)
  have "needNudge now_ts nid ts \<longleftrightarrow> ts + j \<le> now_ts"
    by (simp add: needNudge_def j_def)
  also have "\<dots> \<longleftrightarrow> unat (ts + j) \<le> unat now_ts"
    by (rule word_le_nat_alt)
  also have "unat (ts + j) = (unat ts + unat j) mod 2 ^ 64"
    by (simp add: unat_word_ariths(1))
  finally show ?thesis unfolding j .
qed

text \<open>
  C5, amended: for every node id, last uptime and current time, \<open>needNudge\<close> is true
  if and only if the current time is at or past the deadline
  \<open>LastUpTime + (24 + id mod 24) * 1200\<close> taken modulo \<open>2^64\<close>, the 64-bit unsigned
  value that the code computes; whenever that sum is below \<open>2^64\<close> this is the
  deadline itself.
\<close>

theorem needNudge_deadline_mod:
  "(needNudge now_ts nid ts \<longleftrightarrow>
      (unat ts + (24 + unat nid mod 24) * 1200) mod 2 ^ 64 \<le> unat now_ts) \<and>
   (unat ts + (24 + unat nid mod 24) * 1200 < 2 ^ 64 \<longrightarrow>
      (needNudge now_ts nid ts \<longleftrightarrow>
         unat ts + (24 + unat nid mod 24) * 1200 \<le> unat now_ts))"
  by (simp add: needNudge_unat)

theorem needNudge_deadline_mod_witness:
  "unat (1000 :: u64) + (24 + unat (9 :: u32) mod 24) * 1200 < 2 ^ 64 \<and>
   needNudge 100000 9 1000 \<and> \<not> needNudge 40599 9 1000"
  using needNudge_deadline_mod [of 100000 9 1000] needNudge_deadline_mod [of 40599 9 1000]
  by simp

subsection \<open>The direct link probe\<close>

lemma direct_route_iff:
  "direct_route d rs \<longleftrightarrow> (\<exists>r \<in> set rs. Gw r = None \<and> LinkIndex r = d)"
  by (induction rs) auto

text \<open>
  C8: \<open>IsDirect\<close> returns an error if and only if the string does not parse as an IP
  address; when the route lookup for the parsed address fails it returns
  \<^verbatim>\<open>(false, nil)\<close>; and it returns \<^verbatim>\<open>(true, nil)\<close> exactly when one of the routes
  returned has no gateway and leaves through the link whose index was fixed at
  construction.
\<close>

theorem IsDirect_contract:
  "((\<exists>err. IsDirect d E ip = Inl err) \<longleftrightarrow> ParseIP E ip = None) \<and>
   (\<forall>ipT err. ParseIP E ip = Some ipT \<and> RouteGet E ipT = Inl err \<longrightarrow>
        IsDirect d E ip = Inr False) \<and>
   (IsDirect d E ip = Inr True \<longleftrightarrow>
      (\<exists>ipT routes. ParseIP E ip = Some ipT \<and> RouteGet E ipT = Inr routes \<and>
         (\<exists>r \<in> set routes. Gw r = None \<and> LinkIndex r = d)))"
  by (auto simp: IsDirect_def direct_route_iff split: option.splits sum.splits)

theorem IsDirect_contract_witness:
  "IsDirect 3 (calm_env no_ledger) ''10.0.0.5'' = Inr True \<and>
   IsDirect 3 (calm_env no_ledger) ''8.8.8.8'' = Inr False \<and>
   (\<exists>err. IsDirect 3 (calm_env no_ledger) ''not-an-ip'' = Inl err)"
proof -
  let ?E = "calm_env no_ledger"
  have p1: "ParseIP ?E ''10.0.0.5'' = Some ''10.0.0.5''"
    and r1: "RouteGet ?E ''10.0.0.5'' =
               Inr [\<lparr>Gw = Some ''10.0.0.1'', LinkIndex = 2\<rparr>, \<lparr>Gw = None, LinkIndex = 3\<rparr>]"
    and p2: "ParseIP ?E ''8.8.8.8'' = Some ''8.8.8.8''"
    and r2: "RouteGet ?E ''8.8.8.8'' = Inl (Failure ''network is unreachable'')"
    and p3: "ParseIP ?E ''not-an-ip'' = None"
    by (simp_all add: calm_env_def)
  have a: "IsDirect 3 ?E ''10.0.0.5'' = Inr True"
    using IsDirect_contract [of 3 ?E "''10.0.0.5''"] p1 r1 by simp
  have b: "IsDirect 3 ?E ''8.8.8.8'' = Inr False"
    using IsDirect_contract [of 3 ?E "''8.8.8.8''"] p2 r2 by blast
  have c: "\<exists>err. IsDirect 3 ?E ''not-an-ip'' = Inl err"
    using IsDirect_contract [of 3 ?E "''not-an-ip''"] p3 by blast
  show ?thesis using a b c by blast
qed

subsection \<open>The peer power-down request\<close>

text \<open>
  C9: \<open>powerRequest\<close> returns an error only when one of the four local steps fails
  (encoding, URL, request creation, signing), and then nothing was sent. Once the
  request is signed, every outcome of the HTTP call gives a nil error: a transport
  error leaves only the call in the trace, and any response, whatever its status, has
  its body closed and is dropped.
\<close>

theorem powerRequest_only_local_errors:
  "(\<forall>err. fst (powerRequest p E ip req s) = Some err \<longrightarrow>
      snd (powerRequest p E ip req s) = s \<and>
      (Encode E req = Inl err \<or>
       (\<exists>buf. Encode E req = Inr buf \<and>
          (buildUrl E ip PowerServerPort ''power'' = Inl err \<or>
           (\<exists>url. buildUrl E ip PowerServerPort ''power'' = Inr url \<and>
              (NewRequest E ''POST'' url buf = Inl err \<or>
               (\<exists>r. NewRequest E ''POST'' url buf = Inr r \<and>
                  SignedRequest E (node p) (sk p) r = Inl err))))))) \<and>
   (\<forall>buf url r sreq.
      Encode E req = Inr buf \<and> buildUrl E ip PowerServerPort ''power'' = Inr url \<and>
      NewRequest E ''POST'' url buf = Inr r \<and>
      SignedRequest E (node p) (sk p) r = Inr sreq \<longrightarrow>
      fst (powerRequest p E ip req s) = None \<and>
      snd (powerRequest p E ip req s) =
        (case Do E sreq of
           Inl err \<Rightarrow> emit (HttpDo sreq) s
         | Inr code \<Rightarrow> emit BodyClose (emit (HttpDo sreq) s)))"
  by (auto simp: powerRequest_def split: sum.splits)

theorem powerRequest_only_local_errors_witness:
  "powerRequest demo_server (calm_env no_ledger) ''10.0.0.5'' down_request start =
     (None, \<lparr>conns = 0, trace = [HttpDo signed_down, BodyClose]\<rparr>) \<and>
   powerRequest demo_server unreachable_peer_env ''10.0.0.5'' down_request start =
     (None, \<lparr>conns = 0, trace = [HttpDo signed_down]\<rparr>) \<and>
   powerRequest demo_server broken_encoder_env ''10.0.0.5'' down_request start =
     (Some (Failure ''json''), start)"
proof -
  let ?E = "calm_env no_ledger"
  have a: "powerRequest demo_server ?E ''10.0.0.5'' down_request start =
     (None, \<lparr>conns = 0, trace = [HttpDo signed_down, BodyClose]\<rparr>)"
    using powerRequest_only_local_errors [of demo_server ?E "''10.0.0.5''" down_request start]
    by (simp add: prod_eq_iff calm_env_def demo_server_def down_request_def signed_down_def
        start_def emit_def)
  have b: "powerRequest demo_server unreachable_peer_env ''10.0.0.5'' down_request start =
     (None, \<lparr>conns = 0, trace = [HttpDo signed_down]\<rparr>)"
    using powerRequest_only_local_errors
      [of demo_server unreachable_peer_env "''10.0.0.5''" down_request start]
    by (simp add: prod_eq_iff unreachable_peer_env_def calm_env_def demo_server_def
        down_request_def signed_down_def start_def emit_def)
  have c: "powerRequest demo_server broken_encoder_env ''10.0.0.5'' down_request start =
     (Some (Failure ''json''), start)"
    using powerRequest_only_local_errors
      [of demo_server broken_encoder_env "''10.0.0.5''" down_request start]
    by (simp add: powerRequest_def broken_encoder_env_def calm_env_def)
  show ?thesis using a b c by simp
qed

subsection \<open>Power events\<close>

text \<open>
  C10: an event of another farm is ignored before anything is asked of the ledger.
  For every event of this node's farm the record of the node it names is fetched
  first, whoever that node is: a fetch that fails, at the connection or at the read,
  is returned as the error of the event. After a fetch that succeeds, an event that
  names this node itself does nothing more and returns no error; an event that names
  a neighbour powers it down or up as the target says.
\<close>

theorem event_fetches_before_self_check:
  "(evFarmID ev \<noteq> farm p \<longrightarrow> event p E ev s = (None, s)) \<and>
   (evFarmID ev = farm p \<longrightarrow>
      (\<forall>err. Substrate E (conns s) = Some err \<longrightarrow>
         event p E ev s =
           (Some (Wrap err ''failed to get connection to substrate''),
            \<lparr>conns = Suc (conns s), trace = trace s\<rparr>)) \<and>
      (\<forall>err. Substrate E (conns s) = None \<and> GetNode E (evNodeID ev) = Inl err \<longrightarrow>
         event p E ev s =
           (Some (Wrap err ''failed to get node information''),
            \<lparr>conns = Suc (conns s), trace = trace s @ [CallGetNode (evNodeID ev)]\<rparr>)) \<and>
      (\<forall>n. Substrate E (conns s) = None \<and> GetNode E (evNodeID ev) = Inr n \<longrightarrow>
         (let s1 = \<lparr>conns = Suc (conns s), trace = trace s @ [CallGetNode (evNodeID ev)]\<rparr>
          in event p E ev s =
               (if evNodeID ev = node p then (None, s1)
                else if IsDown (evTarget ev) then powerDown p E n s1
                else if IsUp (evTarget ev) then powerUp E n s1
                else (None, s1)))))"
  by (simp add: event_def getNode_def connect_def emit_def st_rebuild Let_def)

theorem event_fetches_before_self_check_witness:
  "event demo_server (calm_env self_ledger) self_down_event start =
     (None, \<lparr>conns = 1, trace = [CallGetNode 1]\<rparr>) \<and>
   event demo_server (calm_env no_ledger) self_down_event start =
     (Some (Wrap (Failure ''node not found'') ''failed to get node information''),
      \<lparr>conns = 1, trace = [CallGetNode 1]\<rparr>) \<and>
   event demo_server offline_env self_down_event start =
     (Some (Wrap (Failure ''no connection'') ''failed to get connection to substrate''),
      \<lparr>conns = 1, trace = []\<rparr>) \<and>
   event demo_server offline_env foreign_event start = (None, start) \<and>
   event demo_server lingering_env neighbour_down_event start =
     (None, \<lparr>conns = 1, trace = [CallGetNode 9, HttpDo signed_down, BodyClose]\<rparr>) \<and>
   event demo_server (calm_env no_ledger) neighbour_down_event start =
     (Some (Wrap (Failure ''node not found'') ''failed to get node information''),
      \<lparr>conns = 1, trace = [CallGetNode 9]\<rparr>)"
proof -
  have a: "event demo_server (calm_env self_ledger) self_down_event start =
     (None, \<lparr>conns = 1, trace = [CallGetNode 1]\<rparr>)"
    using event_fetches_before_self_check [of self_down_event demo_server "calm_env self_ledger" start]
    by (simp add: self_down_event_def demo_server_def calm_env_def self_ledger_def start_def)
  have b: "event demo_server (calm_env no_ledger) self_down_event start =
     (Some (Wrap (Failure ''node not found'') ''failed to get node information''),
      \<lparr>conns = 1, trace = [CallGetNode 1]\<rparr>)"
    using event_fetches_before_self_check [of self_down_event demo_server "calm_env no_ledger" start]
    by (simp add: self_down_event_def demo_server_def calm_env_def no_ledger_def start_def)
  have c: "event demo_server offline_env self_down_event start =
     (Some (Wrap (Failure ''no connection'') ''failed to get connection to substrate''),
      \<lparr>conns = 1, trace = []\<rparr>)"
    using event_fetches_before_self_check [of self_down_event demo_server offline_env start]
    by (simp add: self_down_event_def demo_server_def offline_env_def calm_env_def start_def)
  have d: "event demo_server offline_env foreign_event start = (None, start)"
    using event_fetches_before_self_check [of foreign_event demo_server offline_env start]
    by (simp add: foreign_event_def demo_server_def)
  have e: "event demo_server lingering_env neighbour_down_event start =
     (None, \<lparr>conns = 1, trace = [CallGetNode 9, HttpDo signed_down, BodyClose]\<rparr>)"
    using event_fetches_before_self_check [of neighbour_down_event demo_server lingering_env start]
    by (simp add: neighbour_down_event_def demo_server_def lingering_env_def calm_env_def
        start_def zos_node_def powerDown_def powerRequest_def IsDirect_def downTarget_def
        PowerServerPort_def signed_down_def emit_def)
  have f: "event demo_server (calm_env no_ledger) neighbour_down_event start =
     (Some (Wrap (Failure ''node not found'') ''failed to get node information''),
      \<lparr>conns = 1, trace = [CallGetNode 9]\<rparr>)"
    using event_fetches_before_self_check [of neighbour_down_event demo_server "calm_env no_ledger" start]
    by (simp add: neighbour_down_event_def demo_server_def calm_env_def no_ledger_def start_def)
  show ?thesis using a b c d e f by simp
qed

subsection \<open>Reconciliation of a neighbour\<close>

lemma powerUp_trace:
  "trace (snd (powerUp E n s)) = trace s \<or>
   (\<exists>mac. trace (snd (powerUp E n s)) = trace s @ [EtherWake mac])"
  by (simp add: powerUp_def emit_def Let_def)

lemma powerRequest_trace:
  "\<exists>ws. trace (snd (powerRequest p E ip req s)) = trace s @ ws \<and>
        (\<forall>e \<in> set ws. \<not> is_wake e)"
  by (auto simp: powerRequest_def emit_def split: sum.splits)

lemma powerDown_loop_trace:
  "\<exists>ws. trace (powerDown_loop p E req ips s) = trace s @ ws \<and> (\<forall>e \<in> set ws. \<not> is_wake e)"
proof (induction ips arbitrary: s)
  case Nil
  show ?case by simp
next
  case (Cons ip ips)
  obtain ws1 where w1: "trace (snd (powerRequest p E ip req s)) = trace s @ ws1"
      "\<forall>e \<in> set ws1. \<not> is_wake e"
    using powerRequest_trace by blast
  obtain ws2 where w2:
      "trace (powerDown_loop p E req ips (snd (powerRequest p E ip req s))) =
         trace (snd (powerRequest p E ip req s)) @ ws2"
      "\<forall>e \<in> set ws2. \<not> is_wake e"
    using Cons.IH by blast
  have sent: "\<exists>ws. trace (powerDown_loop p E req ips (snd (powerRequest p E ip req s))) =
                  trace s @ ws \<and> (\<forall>e \<in> set ws. \<not> is_wake e)"
  proof (intro exI conjI)
    show "trace (powerDown_loop p E req ips (snd (powerRequest p E ip req s))) =
            trace s @ (ws1 @ ws2)"
      using w1 w2 by simp
    show "\<forall>e \<in> set (ws1 @ ws2). \<not> is_wake e"
      using w1 w2 by auto
  qed
  show ?case
    using sent Cons.IH [of s] by (simp split: sum.splits)
qed

lemma powerDown_trace:
  "\<exists>ws. trace (snd (powerDown p E n s)) = trace s @ ws \<and> (\<forall>e \<in> set ws. \<not> is_wake e)"
  by (simp add: powerDown_def Let_def powerDown_loop_trace)

text \<open>
  C4: for a neighbour whose record was read. If its target is up or its state is down,
  \<open>syncNode\<close> is \<open>powerUp\<close> when \<open>needNudge\<close> holds and does nothing otherwise, so
  the only effect it can add is one Wake-on-LAN, and none when the node is not overdue.
  If its target is not up and its state is not down, \<open>syncNode\<close> is \<open>powerDown\<close>,
  and no Wake-on-LAN appears among its effects.
\<close>

theorem syncNode_branches:
  assumes "GetNode E nid = Inr n"
  shows "(IsUp (Target (Power n)) \<or> IsDown (State (Power n)) \<longrightarrow>
            syncNode p E nid s =
              (if needNudge (now E) nid (LastUpTime (Power n))
               then powerUp E n (emit (CallGetNode nid) s)
               else (None, emit (CallGetNode nid) s)) \<and>
            (\<exists>ws. trace (snd (syncNode p E nid s)) = trace s @ [CallGetNode nid] @ ws \<and>
                  (ws = [] \<or> (\<exists>mac. ws = [EtherWake mac])) \<and>
                  (\<not> needNudge (now E) nid (LastUpTime (Power n)) \<longrightarrow> ws = []))) \<and>
         (\<not> IsUp (Target (Power n)) \<and> \<not> IsDown (State (Power n)) \<longrightarrow>
            syncNode p E nid s = powerDown p E n (emit (CallGetNode nid) s) \<and>
            (\<exists>ws. trace (snd (syncNode p E nid s)) = trace s @ [CallGetNode nid] @ ws \<and>
                  (\<forall>e \<in> set ws. \<not> is_wake e)))"
proof (intro conjI impI)
  assume up: "IsUp (Target (Power n)) \<or> IsDown (State (Power n))"
  show eq: "syncNode p E nid s =
              (if needNudge (now E) nid (LastUpTime (Power n))
               then powerUp E n (emit (CallGetNode nid) s)
               else (None, emit (CallGetNode nid) s))"
    using assms up by (simp add: syncNode_def Let_def)
  show "\<exists>ws. trace (snd (syncNode p E nid s)) = trace s @ [CallGetNode nid] @ ws \<and>
                  (ws = [] \<or> (\<exists>mac. ws = [EtherWake mac])) \<and>
                  (\<not> needNudge (now E) nid (LastUpTime (Power n)) \<longrightarrow> ws = [])"
    using powerUp_trace [of E n "emit (CallGetNode nid) s"]
    unfolding eq by (auto simp: emit_def)
next
  assume down: "\<not> IsUp (Target (Power n)) \<and> \<not> IsDown (State (Power n))"
  show eq: "syncNode p E nid s = powerDown p E n (emit (CallGetNode nid) s)"
    using assms down by (simp add: syncNode_def Let_def)
  show "\<exists>ws. trace (snd (syncNode p E nid s)) = trace s @ [CallGetNode nid] @ ws \<and>
                  (\<forall>e \<in> set ws. \<not> is_wake e)"
    using powerDown_trace [of p E n "emit (CallGetNode nid) s"]
    unfolding eq by (auto simp: emit_def)
qed

theorem syncNode_branches_witness:
  "syncNode demo_server nudge_env 9 start =
     (None, \<lparr>conns = 0, trace = [CallGetNode 9, EtherWake ''aa:bb:cc:dd:ee:ff'']\<rparr>) \<and>
   syncNode demo_server (nudge_env\<lparr>now := 2000\<rparr>) 9 start =
     (None, \<lparr>conns = 0, trace = [CallGetNode 9]\<rparr>) \<and>
   syncNode demo_server lingering_env 9 start =
     (None, \<lparr>conns = 0, trace = [CallGetNode 9, HttpDo signed_down, BodyClose]\<rparr>)"
proof -
  have g1: "GetNode nudge_env 9 = Inr (zos_node 9 7 up_power)"
    and g2: "GetNode (nudge_env\<lparr>now := 2000\<rparr>) 9 = Inr (zos_node 9 7 up_power)"
    and g3: "GetNode lingering_env 9 = Inr (zos_node 9 7 lingering_power)"
    by (simp_all add: nudge_env_def lingering_env_def calm_env_def)
  have a: "syncNode demo_server nudge_env 9 start =
     (None, \<lparr>conns = 0, trace = [CallGetNode 9, EtherWake ''aa:bb:cc:dd:ee:ff'']\<rparr>)"
    using syncNode_branches [OF g1, of demo_server start]
    by (simp add: zos_node_def up_power_def needNudge_def nudge_env_def calm_env_def
        powerUp_def emit_def start_def)
  have b: "syncNode demo_server (nudge_env\<lparr>now := 2000\<rparr>) 9 start =
     (None, \<lparr>conns = 0, trace = [CallGetNode 9]\<rparr>)"
    using syncNode_branches [OF g2, of demo_server start]
    by (simp add: zos_node_def up_power_def needNudge_def nudge_env_def calm_env_def
        emit_def start_def)
  have c: "syncNode demo_server lingering_env 9 start =
     (None, \<lparr>conns = 0, trace = [CallGetNode 9, HttpDo signed_down, BodyClose]\<rparr>)"
    using syncNode_branches [OF g3, of demo_server start]
    by (simp add: zos_node_def lingering_power_def lingering_env_def calm_env_def
        powerDown_def powerRequest_def IsDirect_def downTarget_def PowerServerPort_def
        demo_server_def signed_down_def emit_def start_def)
  show ?thesis using a b c by simp
qed

subsection \<open>The handler of POST /power: checks before the ledger\<close>

text \<open>
  C6, as stated, fails: the target is looked at only after the leadership check and the
  comparison of the caller with the \<^verbatim>\<open>Leader\<close> field. A node that believes itself the
  leader answers forbidden to a request whose target is \<^verbatim>\<open>up\<close>.
\<close>

theorem power_other_target_counterexample:
  "Decode leader_env (inBody up_body) = Inr \<lparr>reqLeader = 1, reqNode = 2, reqTarget = ''up''\<rparr> \<and>
   ''up'' \<noteq> downTarget \<and>
   power_handler demo_server leader_env up_body start = (Forbidden (Errorf ''is a leader node'' []), start)"
  by (simp add: power_handler_def leader_env_def calm_env_def up_body_def downTarget_def)

text \<open>
  C6, amended: for every request whose body decodes with a target other than
  \<^verbatim>\<open>down\<close>, the handler answers forbidden when this node is the leader, unauthorized
  when the authenticated caller differs from the \<^verbatim>\<open>Leader\<close> field, and bad request
  otherwise; in all three cases nothing is asked of the ledger and nothing is shut down.
\<close>

theorem power_other_target:
  assumes "Decode E (inBody r) = Inr request" and "reqTarget request \<noteq> downTarget"
  shows "power_handler p E r s =
           (if IsLeader E then Forbidden (Errorf ''is a leader node'' [])
            else if TwinID r \<noteq> reqLeader request
            then UnAuthorized (Errorf ''invalid leader id in request'' [])
            else BadRequest (Errorf (''unknown power target '%s'' @ [CHR 0x27])
                               [ArgS (reqTarget request)]), s)"
  using assms by (simp add: power_handler_def Let_def)

theorem power_other_target_witness:
  "power_handler demo_server (calm_env no_ledger) up_body start =
     (BadRequest (Errorf (''unknown power target '%s'' @ [CHR 0x27]) [ArgS ''up'']), start)"
proof -
  have d: "Decode (calm_env no_ledger) (inBody up_body) = Inr \<lparr>reqLeader = 1, reqNode = 2, reqTarget = ''up''\<rparr>"
    by (simp add: calm_env_def up_body_def)
  have t: "reqTarget \<lparr>reqLeader = 1, reqNode = 2, reqTarget = ''up''\<rparr> \<noteq> downTarget"
    by (simp add: downTarget_def)
  show ?thesis
    using power_other_target [OF d t, of demo_server start]
    by (simp add: calm_env_def up_body_def)
qed

text \<open>
  C7, as stated, fails for the same reason: the farm of the claimed leader is looked up
  only when the earlier checks have passed. A node that believes itself the leader
  answers forbidden although the caller's farm on the ledger is another one.
\<close>

theorem power_foreign_farm_counterexample:
  "GetNode foreign_leader_env (TwinID down_body) = Inr (zos_node 1 9 up_power) \<and>
   FarmID (zos_node 1 9 up_power) \<noteq> farm demo_server \<and>
   Decode foreign_leader_env (inBody down_body) = Inr \<lparr>reqLeader = 1, reqNode = 2, reqTarget = ''down''\<rparr> \<and>
   power_handler demo_server foreign_leader_env down_body start =
     (Forbidden (Errorf ''is a leader node'' []), start)"
  by (simp add: power_handler_def foreign_leader_env_def foreign_ledger_def calm_env_def down_body_def
      zos_node_def demo_server_def)

text \<open>
  C7, amended: when this node is not the leader, the body decodes, the authenticated
  caller equals the \<^verbatim>\<open>Leader\<close> field, the target is \<^verbatim>\<open>down\<close>, a ledger connection is
  obtained and the leader's record is read, a leader whose farm differs from this
  node's farm gets an unauthorized answer; no transaction is written and nothing is
  shut down.
\<close>

theorem power_foreign_farm:
  assumes "\<not> IsLeader E"
    and "Decode E (inBody r) = Inr request"
    and "TwinID r = reqLeader request"
    and "reqTarget request = downTarget"
    and "Substrate E (conns s) = None"
    and "GetNode E (TwinID r) = Inr leaderNode"
    and "FarmID leaderNode \<noteq> farm p"
  shows "power_handler p E r s =
           (UnAuthorized (Errorf ''requesting node is not in the same farm'' []),
            \<lparr>conns = Suc (conns s), trace = trace s @ [CallGetNode (TwinID r)]\<rparr>)"
  using assms by (simp add: power_handler_def Let_def connect_def emit_def)

theorem power_foreign_farm_witness:
  "power_handler demo_server (calm_env foreign_ledger) down_body start =
     (UnAuthorized (Errorf ''requesting node is not in the same farm'' []),
      \<lparr>conns = 1, trace = [CallGetNode 1]\<rparr>)"
proof -
  let ?E = "calm_env foreign_ledger"
  have h1: "\<not> IsLeader ?E"
    and h2: "Decode ?E (inBody down_body) = Inr \<lparr>reqLeader = 1, reqNode = 2, reqTarget = ''down''\<rparr>"
    and h3: "TwinID down_body = reqLeader \<lparr>reqLeader = 1, reqNode = 2, reqTarget = ''down''\<rparr>"
    and h4: "reqTarget \<lparr>reqLeader = 1, reqNode = 2, reqTarget = ''down''\<rparr> = downTarget"
    and h5: "Substrate ?E (conns start) = None"
    and h6: "GetNode ?E (TwinID down_body) = Inr (zos_node 1 9 up_power)"
    and h7: "FarmID (zos_node 1 9 up_power) \<noteq> farm demo_server"
    by (simp_all add: calm_env_def down_body_def downTarget_def foreign_ledger_def
        zos_node_def demo_server_def)
  show ?thesis
    using power_foreign_farm [OF h1 h2 h3 h4 h5 h6 h7]
    by (simp add: start_def down_body_def)
qed

subsection \<open>The handler of POST /power: the validated request\<close>

lemma shutdown_trace:
  "\<exists>ws. trace (snd (shutdown E s)) = trace s @ CallSendNow # CallShutdown # ws \<and>
        (ws = [] \<or> ws = [CallReboot])"
  by (simp add: shutdown_def Let_def emit_def)

text \<open>
  C3, as stated, fails: the answer after the shutdown depends on what the shutdown
  returns. With a ledger that accepts the transaction and an init system that fails to
  shut down, the validated request gets an error answer, not 202 Accepted.
\<close>

theorem power_validated_counterexample:
  "\<not> IsLeader stuck_init_env \<and>
   Decode stuck_init_env (inBody down_body) = Inr \<lparr>reqLeader = 1, reqNode = 2, reqTarget = ''down''\<rparr> \<and>
   GetNode stuck_init_env 1 = Inr (zos_node 1 7 up_power) \<and>
   SetNodePowerState stuck_init_env (state_down 1) = None \<and>
   power_handler demo_server stuck_init_env down_body start =
     (Error (Failure ''zinit unreachable''),
      \<lparr>conns = 1, trace = [CallGetNode 1, TxSetNodePowerState (state_down 1),
                            CallSendNow, CallShutdown]\<rparr>)"
  by (simp add: power_handler_def shutdown_def stuck_init_env_def calm_env_def self_ledger_def
      down_body_def downTarget_def zos_node_def demo_server_def state_down_def
      connect_def emit_def start_def)

text \<open>
  C3, amended: on a fully validated request the handler first writes the transaction
  that sets this node's state down with the request's leader, then invokes the local
  shutdown, then answers 202 Accepted when the shutdown returned no error and with an
  error when it returned one; if the ledger write fails, the handler answers with an
  error and the shutdown is never invoked.
\<close>

theorem power_validated:
  assumes "\<not> IsLeader E"
    and "Decode E (inBody r) = Inr request"
    and "TwinID r = reqLeader request"
    and "reqTarget request = downTarget"
    and "Substrate E (conns s) = None"
    and "GetNode E (TwinID r) = Inr leaderNode"
    and "FarmID leaderNode = farm p"
  shows "(let tx = state_down (reqLeader request);
              s3 = \<lparr>conns = Suc (conns s),
                    trace = trace s @ [CallGetNode (TwinID r), TxSetNodePowerState tx]\<rparr>
          in (\<forall>err. SetNodePowerState E tx = Some err \<longrightarrow>
                power_handler p E r s = (Error (Wrap err ''failed to set power state''), s3)) \<and>
             (SetNodePowerState E tx = None \<longrightarrow>
                power_handler p E r s =
                  (case shutdown E s3 of
                     (None, s4) \<Rightarrow> (Accepted, s4)
                   | (Some err, s4) \<Rightarrow> (Error err, s4)) \<and>
                (\<exists>ws. trace (snd (power_handler p E r s)) =
                        trace s3 @ CallSendNow # CallShutdown # ws \<and>
                      (ws = [] \<or> ws = [CallReboot]))))"
proof -
  define tx where "tx = state_down (reqLeader request)"
  define s3 where "s3 = \<lparr>conns = Suc (conns s),
                    trace = trace s @ [CallGetNode (TwinID r), TxSetNodePowerState tx]\<rparr>"
  have fail: "power_handler p E r s = (Error (Wrap err ''failed to set power state''), s3)"
    if "SetNodePowerState E tx = Some err" for err
    using assms that
    by (simp add: power_handler_def Let_def connect_def emit_def tx_def s3_def state_down_def)
  have ok: "power_handler p E r s =
                  (case shutdown E s3 of
                     (None, s4) \<Rightarrow> (Accepted, s4)
                   | (Some err, s4) \<Rightarrow> (Error err, s4))"
    if "SetNodePowerState E tx = None"
    using assms that
    by (simp add: power_handler_def Let_def connect_def emit_def tx_def s3_def state_down_def
        st_rebuild split: prod.splits option.splits)
  have tr: "\<exists>ws. trace (snd (power_handler p E r s)) = trace s3 @ CallSendNow # CallShutdown # ws \<and>
                      (ws = [] \<or> ws = [CallReboot])"
    if "SetNodePowerState E tx = None"
    using shutdown_trace [of E s3] unfolding ok [OF that]
    by (auto split: prod.splits option.splits)
  show ?thesis
    using fail ok tr unfolding Let_def tx_def [symmetric] s3_def [symmetric] by blast
qed

theorem power_validated_witness:
  "power_handler demo_server (calm_env self_ledger) down_body start =
     (Accepted, \<lparr>conns = 1, trace = [CallGetNode 1, TxSetNodePowerState (state_down 1),
                                      CallSendNow, CallShutdown]\<rparr>) \<and>
   power_handler demo_server readonly_ledger_env down_body start =
     (Error (Wrap (Failure ''extrinsic failed'') ''failed to set power state''),
      \<lparr>conns = 1, trace = [CallGetNode 1, TxSetNodePowerState (state_down 1)]\<rparr>)"
proof -
  let ?q = "\<lparr>reqLeader = 1, reqNode = 2, reqTarget = ''down''\<rparr>"
  let ?E = "calm_env self_ledger"
  have h: "\<not> IsLeader ?E" "Decode ?E (inBody down_body) = Inr ?q"
      "TwinID down_body = reqLeader ?q" "reqTarget ?q = downTarget"
      "Substrate ?E (conns start) = None"
      "GetNode ?E (TwinID down_body) = Inr (zos_node 1 7 up_power)"
      "FarmID (zos_node 1 7 up_power) = farm demo_server"
    by (simp_all add: calm_env_def down_body_def downTarget_def self_ledger_def
        zos_node_def demo_server_def)
  have k: "\<not> IsLeader readonly_ledger_env"
      "Decode readonly_ledger_env (inBody down_body) = Inr ?q"
      "Substrate readonly_ledger_env (conns start) = None"
      "GetNode readonly_ledger_env (TwinID down_body) = Inr (zos_node 1 7 up_power)"
    by (simp_all add: readonly_ledger_env_def calm_env_def down_body_def self_ledger_def)
  have a: "power_handler demo_server ?E down_body start =
     (Accepted, \<lparr>conns = 1, trace = [CallGetNode 1, TxSetNodePowerState (state_down 1),
                                      CallSendNow, CallShutdown]\<rparr>)"
    using power_validated [OF h(1) h(2) h(3) h(4) h(5) h(6) h(7)]
    by (simp add: Let_def shutdown_def calm_env_def start_def down_body_def emit_def)
  have b: "power_handler demo_server readonly_ledger_env down_body start =
     (Error (Wrap (Failure ''extrinsic failed'') ''failed to set power state''),
      \<lparr>conns = 1, trace = [CallGetNode 1, TxSetNodePowerState (state_down 1)]\<rparr>)"
    using power_validated [OF k(1) k(2) h(3) h(4) k(3) k(4) h(7)]
    by (simp add: Let_def readonly_ledger_env_def calm_env_def start_def down_body_def)
  show ?thesis using a b by simp
qed

subsection \<open>Self synchronisation\<close>

lemma syncSelf_target_up:
  assumes "Substrate E (conns s) = None"
    and "GetNode E (node p) = Inr n"
    and "IsUp (Target (Power n))"
    and "Substrate E (Suc (conns s)) = None"
  shows "syncSelf p E s =
           (errors_Wrap (SetNodePowerState E state_up) ''failed to set state to up'',
            \<lparr>conns = Suc (Suc (conns s)),
             trace = trace s @ [CallGetNode (node p), TxSetNodePowerState state_up]\<rparr>)"
  using assms by (simp add: syncSelf_def getNode_def connect_def emit_def Let_def)

text \<open>
  C1: the ledger records node 1 with target up and state up already. \<open>syncSelf\<close>
  still writes the transaction that sets the state up; the claim says that it is
  written only when the recorded state was not up.
\<close>

theorem syncSelf_writes_up_when_already_up:
  "GetNode (calm_env self_ledger) (node demo_server) = Inr (zos_node 1 7 up_power) \<and>
   IsUp (Target (Power (zos_node 1 7 up_power))) \<and>
   IsUp (State (Power (zos_node 1 7 up_power))) \<and>
   syncSelf demo_server (calm_env self_ledger) start =
     (None, \<lparr>conns = 2, trace = [CallGetNode 1, TxSetNodePowerState state_up]\<rparr>)"
proof -
  have g: "GetNode (calm_env self_ledger) (node demo_server) = Inr (zos_node 1 7 up_power)"
    by (simp add: calm_env_def self_ledger_def demo_server_def)
  have u: "IsUp (Target (Power (zos_node 1 7 up_power)))"
    "IsUp (State (Power (zos_node 1 7 up_power)))"
    by (simp_all add: zos_node_def up_power_def)
  have c: "Substrate (calm_env self_ledger) (conns start) = None"
    "Substrate (calm_env self_ledger) (Suc (conns start)) = None"
    by (simp_all add: calm_env_def)
  have "syncSelf demo_server (calm_env self_ledger) start =
     (None, \<lparr>conns = 2, trace = [CallGetNode 1, TxSetNodePowerState state_up]\<rparr>)"
    using syncSelf_target_up [OF c(1) g u(1) c(2)]
    by (simp add: calm_env_def start_def demo_server_def)
  with g u show ?thesis by simp
qed

subsection \<open>The event loop\<close>

text \<open>The path of a failed subscription: wait ten seconds and subscribe again.\<close>

lemma events_loop_subscribe_failed:
  assumes "sub t = SubscribeFailed err"
  shows "events_loop p E (t # ts) s =
           (if cancelled t then (Exited, emit Subscribe s)
            else events_loop p E ts (emit After10s (emit Subscribe s)))"
  using assms by (simp add: recv_def)

text \<open>
  C2: a stream is established, its channel is closed, and the context is not
  cancelled. \<open>recv\<close> returns nil and the loop of \<open>events\<close> returns: there is no
  delay and no second subscription, at the first turn as well as after a retry. The
  claim, the comment on the loop and the path of a failed subscription say that the
  stream is established again.
\<close>

theorem events_loop_exits_on_stream_end:
  "sub ended_stream = Stream [] \<and> \<not> cancelled ended_stream \<and>
   events_loop demo_server (calm_env no_ledger) [ended_stream, ended_stream] start =
     (Exited, \<lparr>conns = 0, trace = [Subscribe]\<rparr>) \<and>
   events_loop demo_server (calm_env no_ledger) [refused, ended_stream] start =
     (Exited, \<lparr>conns = 0, trace = [Subscribe, After10s, Subscribe]\<rparr>)"
  by (simp add: ended_stream_def refused_def recv_def emit_def start_def)

end
